theory Spec2Isabelle
  imports Main "HOL-Library.AList"
begin

section \<open>JavaScript values, exceptions and objects\<close>

text \<open>
  The facade of \<^verbatim>\<open>packages/core/src/fsx.js\<close> handles its arguments as opaque
  JavaScript values. Objects are references into a store, so that the strict equality
  \<^verbatim>\<open>===\<close> of two objects is equality of references. Numbers carry an integer
  (the facade never computes with them).
\<close>

type_synonym ref = nat

datatype jsval =
    JSUndefined
  | JSNull
  | JSBoolean bool
  | JSNumber int
  | JSString string
  | JSObject ref

text \<open>\<^verbatim>\<open>!name\<close> is the negation of \<open>truthy name\<close>.\<close>

fun truthy :: "jsval \<Rightarrow> bool" where
  "truthy JSUndefined = False"
| "truthy JSNull = False"
| "truthy (JSBoolean b) = b"
| "truthy (JSNumber n) = (n \<noteq> 0)"
| "truthy (JSString s) = (s \<noteq> [])"
| "truthy (JSObject r) = True"

text \<open>\<^verbatim>\<open>typeof v === "string"\<close>.\<close>

fun is_string :: "jsval \<Rightarrow> bool" where
  "is_string (JSString s) = True"
| "is_string _ = False"

text \<open>
  What a call can throw: the two error classes of the module, the built-in
  \<^verbatim>\<open>TypeError\<close> and \<^verbatim>\<open>Error\<close> with their message, and any other value
  (a backend may throw whatever it likes). The two classes of the module compute their
  message in the constructor; \<open>CHR 0x22\<close> is the double quote.
\<close>

datatype thrown =
    NoSuchMethodError string
  | ImplAreadySetError
  | TypeError string
  | Error string
  | Thrown jsval

fun message :: "thrown \<Rightarrow> string option" where
  "message (NoSuchMethodError methodName) =
     Some (''Method '' @ [CHR 0x22] @ methodName @ [CHR 0x22] @ '' does not exist on impl.'')"
| "message ImplAreadySetError = Some ''Implementation already set.''"
| "message (TypeError m) = Some m"
| "message (Error m) = Some m"
| "message (Thrown v) = None"

text \<open>
  A member of an implementation object is a function or some other value. A function
  takes the argument list and acts on the world \<open>'w\<close> outside the facade (the file
  system behind the backend, the clock); \<open>Inl\<close> is a thrown exception or a rejected
  promise, \<open>Inr\<close> the value returned or the value the returned promise resolves to.
  An object maps member names to members (the lookup \<^verbatim>\<open>impl[methodName]\<close>, which
  gives the same member each time it is made), and the store maps every reference to its
  object. An implementation is an object, as the types \<^verbatim>\<open>FsxImpl\<close> and
  \<^verbatim>\<open>object\<close> of the constructor's and of \<^verbatim>\<open>setImpl\<close>'s parameter say. The
  functions of an implementation act on the world only: they do not call the facade
  that is calling them.
\<close>

datatype 'w member =
    Function "jsval list \<Rightarrow> 'w \<Rightarrow> (thrown + jsval) \<times> 'w"
  | NonFunction jsval

type_synonym 'w object = "string \<rightharpoonup> 'w member"
type_synonym 'w heap = "ref \<Rightarrow> 'w object"

section \<open>LogEntry and Fsx\<close>

record LogEntry =
  methodName :: string
  args :: "jsval list"
  timestamp :: int

text \<open>
  The private fields of \<^verbatim>\<open>Fsx\<close>. \<^verbatim>\<open>#logs\<close> is a JavaScript \<^verbatim>\<open>Map\<close>, which
  iterates in insertion order: an association list, with \<^verbatim>\<open>get\<close> as
  \<^const>\<open>map_of\<close> (and \<^verbatim>\<open>has\<close> as its finding an entry), \<^verbatim>\<open>set\<close> as \<^const>\<open>AList.update\<close>
  (in place for a key that is present, at the end for a new one) and \<^verbatim>\<open>delete\<close>
  as \<^const>\<open>AList.delete\<close>.
\<close>

record Fsx =
  baseImpl :: ref
  impl :: ref
  logs :: "(string \<times> LogEntry list) list"

text \<open>\<^verbatim>\<open>constructor({ impl })\<close>\<close>

definition new_Fsx :: "ref \<Rightarrow> Fsx" where
  "new_Fsx i = \<lparr>baseImpl = i, impl = i, logs = []\<rparr>"

text \<open>
  \<^verbatim>\<open>#log(methodName, ...args)\<close>: the loop over \<^verbatim>\<open>this.#logs.values()\<close>. Every
  \<^verbatim>\<open>new LogEntry\<close> reads \<^verbatim>\<open>Date.now()\<close>, here the parameter \<open>now\<close>, which
  returns the reading and the world after it.
\<close>

fun log_values ::
  "('w \<Rightarrow> int \<times> 'w) \<Rightarrow> string \<Rightarrow> jsval list \<Rightarrow> (string \<times> LogEntry list) list \<Rightarrow> 'w
    \<Rightarrow> (string \<times> LogEntry list) list \<times> 'w" where
  "log_values now m a [] w = ([], w)"
| "log_values now m a ((k, es) # rest) w =
     (let (t, w1) = now w;
          (rest', w2) = log_values now m a rest w1
      in ((k, es @ [\<lparr>methodName = m, args = a, timestamp = t\<rparr>]) # rest', w2))"

definition log :: "('w \<Rightarrow> int \<times> 'w) \<Rightarrow> string \<Rightarrow> jsval list \<Rightarrow> Fsx \<Rightarrow> 'w \<Rightarrow> Fsx \<times> 'w" where
  "log now m a s w = (let (ls, w') = log_values now m a (logs s) w in (s\<lparr>logs := ls\<rparr>, w'))"

text \<open>
  Every operation returns its outcome together with the facade as the call leaves it,
  also when it throws.
\<close>

definition logStart :: "jsval \<Rightarrow> Fsx \<Rightarrow> (thrown + unit) \<times> Fsx" where
  "logStart name s =
     (if \<not> truthy name \<or> \<not> is_string name
      then (Inl (TypeError ''Log name must be a non-empty string.''), s)
      else (case name of
              JSString n \<Rightarrow>
                if map_of (logs s) n \<noteq> None
                then (Inl (Error (''Log '' @ [CHR 0x22] @ n @ [CHR 0x22] @ '' already exists.'')), s)
                else (Inr (), s\<lparr>logs := AList.update n [] (logs s)\<rparr>)
            | _ \<Rightarrow> (Inl (TypeError ''Log name must be a non-empty string.''), s)))"

text \<open>
  \<^verbatim>\<open>logEnd(name)\<close>, for a name of its declared type \<^verbatim>\<open>string\<close>;
  \<^verbatim>\<open>has\<close> holds exactly when \<^verbatim>\<open>get\<close> finds an array.
\<close>

definition logEnd :: "string \<Rightarrow> Fsx \<Rightarrow> (thrown + LogEntry list) \<times> Fsx" where
  "logEnd name s =
     (case map_of (logs s) name of
        Some es \<Rightarrow> (Inr es, s\<lparr>logs := AList.delete name (logs s)\<rparr>)
      | None \<Rightarrow> (Inl (Error (''Log '' @ [CHR 0x22] @ name @ [CHR 0x22] @ '' does not exist.'')), s))"

definition isBaseImpl :: "Fsx \<Rightarrow> bool" where
  "isBaseImpl s = (impl s = baseImpl s)"

definition setImpl :: "('w \<Rightarrow> int \<times> 'w) \<Rightarrow> ref \<Rightarrow> Fsx \<Rightarrow> 'w \<Rightarrow> (thrown + unit) \<times> Fsx \<times> 'w" where
  "setImpl now i s w =
     (let (s1, w1) = log now ''implSet'' [JSObject i] s w
      in if impl s1 \<noteq> baseImpl s1
         then (Inl ImplAreadySetError, s1, w1)
         else (Inr (), s1\<lparr>impl := i\<rparr>, w1))"

definition resetImpl :: "('w \<Rightarrow> int \<times> 'w) \<Rightarrow> Fsx \<Rightarrow> 'w \<Rightarrow> (thrown + unit) \<times> Fsx \<times> 'w" where
  "resetImpl now s w =
     (let (s1, w1) = log now ''implReset'' [] s w
      in (Inr (), s1\<lparr>impl := baseImpl s1\<rparr>, w1))"

text \<open>\<^verbatim>\<open>typeof this.#impl[methodName] !== "function"\<close> throws.\<close>

definition assertImplMethod :: "'w heap \<Rightarrow> string \<Rightarrow> Fsx \<Rightarrow> thrown + unit" where
  "assertImplMethod h m s =
     (case h (impl s) m of
        Some (Function f) \<Rightarrow> Inr ()
      | _ \<Rightarrow> Inl (NoSuchMethodError m))"

text \<open>
  \<^verbatim>\<open>#callImplMethod(methodName, ...args)\<close>. The member is looked up a second time
  for the call; calling a member that is no function is JavaScript's own
  \<^verbatim>\<open>TypeError\<close>.
\<close>

definition callImplMethod ::
  "('w \<Rightarrow> int \<times> 'w) \<Rightarrow> 'w heap \<Rightarrow> string \<Rightarrow> jsval list \<Rightarrow> Fsx \<Rightarrow> 'w
    \<Rightarrow> (thrown + jsval) \<times> Fsx \<times> 'w" where
  "callImplMethod now h m a s w =
     (let (s1, w1) = log now m a s w
      in case assertImplMethod h m s1 of
           Inl e \<Rightarrow> (Inl e, s1, w1)
         | Inr _ \<Rightarrow>
             (case h (impl s1) m of
                Some (Function f) \<Rightarrow> (let (r, w2) = f a w1 in (r, s1, w2))
              | _ \<Rightarrow> (Inl (TypeError ''this.#impl[methodName] is not a function''), s1, w1)))"

text \<open>
  The four data operations (\<open>text_op\<close> and \<open>write_op\<close> are the methods
  \<^verbatim>\<open>text\<close> and \<^verbatim>\<open>write\<close>, whose names Isabelle reserves) are \<^verbatim>\<open>async\<close> methods whose body is one call of
  \<^verbatim>\<open>#callImplMethod\<close>: the promise they return is rejected with what the body throws
  and otherwise settles as the backend's result does. Each takes the parameters it
  declares.
\<close>

definition text_op ::
  "('w \<Rightarrow> int \<times> 'w) \<Rightarrow> 'w heap \<Rightarrow> jsval \<Rightarrow> Fsx \<Rightarrow> 'w \<Rightarrow> (thrown + jsval) \<times> Fsx \<times> 'w" where
  "text_op now h filePath = callImplMethod now h ''text'' [filePath]"

definition json ::
  "('w \<Rightarrow> int \<times> 'w) \<Rightarrow> 'w heap \<Rightarrow> jsval \<Rightarrow> Fsx \<Rightarrow> 'w \<Rightarrow> (thrown + jsval) \<times> Fsx \<times> 'w" where
  "json now h filePath = callImplMethod now h ''json'' [filePath]"

definition arrayBuffer ::
  "('w \<Rightarrow> int \<times> 'w) \<Rightarrow> 'w heap \<Rightarrow> jsval \<Rightarrow> Fsx \<Rightarrow> 'w \<Rightarrow> (thrown + jsval) \<times> Fsx \<times> 'w" where
  "arrayBuffer now h filePath = callImplMethod now h ''arrayBuffer'' [filePath]"

definition write_op ::
  "('w \<Rightarrow> int \<times> 'w) \<Rightarrow> 'w heap \<Rightarrow> jsval \<Rightarrow> jsval \<Rightarrow> Fsx \<Rightarrow> 'w
    \<Rightarrow> (thrown + jsval) \<times> Fsx \<times> 'w" where
  "write_op now h filePath data = callImplMethod now h ''write'' [filePath, data]"

section \<open>Calls and sequences of calls\<close>

text \<open>
  A call of one of the four data operations, with the method name and the argument
  list the caller gave, and the method it runs.
\<close>

datatype data_call = Text jsval | Json jsval | ArrayBuffer jsval | Write jsval jsval

fun name_of :: "data_call \<Rightarrow> string" where
  "name_of (Text p) = ''text''"
| "name_of (Json p) = ''json''"
| "name_of (ArrayBuffer p) = ''arrayBuffer''"
| "name_of (Write p d) = ''write''"

fun args_of :: "data_call \<Rightarrow> jsval list" where
  "args_of (Text p) = [p]"
| "args_of (Json p) = [p]"
| "args_of (ArrayBuffer p) = [p]"
| "args_of (Write p d) = [p, d]"

fun perform ::
  "('w \<Rightarrow> int \<times> 'w) \<Rightarrow> 'w heap \<Rightarrow> data_call \<Rightarrow> Fsx \<Rightarrow> 'w \<Rightarrow> (thrown + jsval) \<times> Fsx \<times> 'w" where
  "perform now h (Text p) = text_op now h p"
| "perform now h (Json p) = json now h p"
| "perform now h (ArrayBuffer p) = arrayBuffer now h p"
| "perform now h (Write p d) = write_op now h p d"

text \<open>
  Any call of a public method, and the facade and the world it leaves behind, whether
  it returns or throws. A caller that catches the exceptions goes through a sequence of
  calls with \<open>run\<close>.
\<close>

datatype call =
    Data data_call
  | LogStart jsval
  | LogEnd string
  | IsBaseImpl
  | SetImpl ref
  | ResetImpl

fun exec :: "('w \<Rightarrow> int \<times> 'w) \<Rightarrow> 'w heap \<Rightarrow> call \<Rightarrow> Fsx \<times> 'w \<Rightarrow> Fsx \<times> 'w" where
  "exec now h (Data d) (s, w) = snd (perform now h d s w)"
| "exec now h (LogStart n) (s, w) = (snd (logStart n s), w)"
| "exec now h (LogEnd n) (s, w) = (snd (logEnd n s), w)"
| "exec now h IsBaseImpl (s, w) = (s, w)"
| "exec now h (SetImpl i) (s, w) = snd (setImpl now i s w)"
| "exec now h ResetImpl (s, w) = snd (resetImpl now s w)"

fun run :: "('w \<Rightarrow> int \<times> 'w) \<Rightarrow> 'w heap \<Rightarrow> call list \<Rightarrow> Fsx \<times> 'w \<Rightarrow> Fsx \<times> 'w" where
  "run now h [] sw = sw"
| "run now h (c # cs) sw = run now h cs (exec now h c sw)"

section \<open>The public surface\<close>

text \<open>
  The operations of the interface \<^verbatim>\<open>HfsImpl\<close> in
  \<^verbatim>\<open>packages/types/src/hfs-types.ts\<close>, and the public methods that the body of
  \<^verbatim>\<open>class Fsx\<close> declares, both in the order of the source.
\<close>

definition HfsImpl_operations :: "string list" where
  "HfsImpl_operations =
     [''text'', ''json'', ''arrayBuffer'', ''bytes'', ''write'', ''isFile'', ''isDirectory'',
      ''createDirectory'', ''delete'', ''deleteAll'', ''list'', ''size'', ''copy'', ''copyAll'',
      ''move'']"

definition Fsx_methods :: "string list" where
  "Fsx_methods =
     [''logStart'', ''logEnd'', ''isBaseImpl'', ''setImpl'', ''resetImpl'',
      ''text'', ''json'', ''arrayBuffer'', ''write'']"

text \<open>
  A call \<^verbatim>\<open>fsx.op(...)\<close> of an operation \<open>op\<close> of the interface, with the
  arguments the caller gives (the function is \<open>None\<close> for any other name). A name
  for which the class declares no method is looked up as \<^verbatim>\<open>undefined\<close>, and
  calling it throws JavaScript's \<^verbatim>\<open>TypeError\<close>, whose message is the engine's, before
  anything of the facade runs. A method that the class declares binds its parameters
  to the arguments in order, \<^verbatim>\<open>undefined\<close> standing for an argument that is not
  given.
\<close>

definition argument :: "jsval list \<Rightarrow> nat \<Rightarrow> jsval" where
  "argument as n = (if n < length as then as ! n else JSUndefined)"

definition call_operation ::
  "('w \<Rightarrow> int \<times> 'w) \<Rightarrow> 'w heap \<Rightarrow> string \<Rightarrow> jsval list \<Rightarrow> Fsx \<Rightarrow> 'w
    \<Rightarrow> ((thrown + jsval) \<times> Fsx \<times> 'w) option" where
  "call_operation now h op as s w =
     (if op \<notin> set HfsImpl_operations then None
      else if op \<notin> set Fsx_methods
        then Some (Inl (TypeError (''fsx.'' @ op @ '' is not a function'')), s, w)
      else if op = ''text'' then Some (text_op now h (argument as 0) s w)
      else if op = ''json'' then Some (json now h (argument as 0) s w)
      else if op = ''arrayBuffer'' then Some (arrayBuffer now h (argument as 0) s w)
      else if op = ''write'' then Some (write_op now h (argument as 0) (argument as 1) s w)
      else None)"

section \<open>A clock and a store to run the facade on\<close>

text \<open>
  A world that is the number of clock readings taken so far, each reading being that
  number; and a store in which object 1 has the single method \<^verbatim>\<open>text\<close>, which
  resolves to the string \<^verbatim>\<open>contents\<close>, object 2 has a method \<^verbatim>\<open>json\<close> that
  fails, and a member \<^verbatim>\<open>write\<close> that is no function, and every other object is empty.
\<close>

definition tick :: "nat \<Rightarrow> int \<times> nat" where
  "tick w = (int w, Suc w)"

definition text_impl :: "jsval list \<Rightarrow> nat \<Rightarrow> (thrown + jsval) \<times> nat" where
  "text_impl a w = (Inr (JSString ''contents''), w)"

definition json_impl :: "jsval list \<Rightarrow> nat \<Rightarrow> (thrown + jsval) \<times> nat" where
  "json_impl a w = (Inl (Error ''This operation is not supported''), w)"

definition store :: "nat heap" where
  "store r =
     (if r = 1 then [''text'' \<mapsto> Function text_impl]
      else if r = 2 then [''json'' \<mapsto> Function json_impl, ''write'' \<mapsto> NonFunction (JSNumber 3)]
      else Map.empty)"

section \<open>What logging does to the facade\<close>

lemma log_values_keys: "map fst (fst (log_values now m a ls w)) = map fst ls"
  by (induction ls arbitrary: w) (auto simp: split_beta)

lemma log_values_map_of:
  "\<exists>t. map_of (fst (log_values now m a ls w)) k =
         map_option (\<lambda>es. es @ [\<lparr>methodName = m, args = a, timestamp = t\<rparr>]) (map_of ls k)"
proof (induction ls arbitrary: w)
  case Nil
  then show ?case by simp
next
  case (Cons p ls)
  obtain k' es where p: "p = (k', es)" by (cases p)
  obtain t w1 where n: "now w = (t, w1)" by (cases "now w")
  show ?case
  proof (cases "k' = k")
    case True
    then show ?thesis using p n by (auto simp: split_beta)
  next
    case False
    from Cons.IH [of w1] obtain t' where
      "map_of (fst (log_values now m a ls w1)) k =
         map_option (\<lambda>es. es @ [\<lparr>methodName = m, args = a, timestamp = t'\<rparr>]) (map_of ls k)" ..
    then show ?thesis using p n False by (auto simp: split_beta)
  qed
qed

lemma log_impl [simp]: "impl (fst (log now m a s w)) = impl s"
  by (simp add: log_def split_beta)

lemma log_baseImpl [simp]: "baseImpl (fst (log now m a s w)) = baseImpl s"
  by (simp add: log_def split_beta)

lemma log_logs: "logs (fst (log now m a s w)) = fst (log_values now m a (logs s) w)"
  by (simp add: log_def split_beta)

lemma log_keys: "map fst (logs (fst (log now m a s w))) = map fst (logs s)"
  by (simp add: log_logs log_values_keys)

lemma log_map_of:
  "\<exists>t. map_of (logs (fst (log now m a s w))) k =
         map_option (\<lambda>es. es @ [\<lparr>methodName = m, args = a, timestamp = t\<rparr>]) (map_of (logs s) k)"
  by (simp add: log_logs log_values_map_of)

lemma log_no_logs: "logs s = [] \<Longrightarrow> log now m a s w = (s, w)"
  by (simp add: log_def)

section \<open>Dispatch\<close>

lemma callImplMethod_facade: "fst (snd (callImplMethod now h m a s w)) = fst (log now m a s w)"
  by (simp add: callImplMethod_def split_beta split: sum.splits option.splits member.splits)

lemma callImplMethod_Function:
  "h (impl s) m = Some (Function f) \<Longrightarrow>
   callImplMethod now h m a s w =
     (let (s1, w1) = log now m a s w; (r, w2) = f a w1 in (r, s1, w2))"
  by (simp add: callImplMethod_def assertImplMethod_def split_beta)

lemma callImplMethod_missing:
  "\<nexists>f. h (impl s) m = Some (Function f) \<Longrightarrow>
   callImplMethod now h m a s w = (Inl (NoSuchMethodError m), log now m a s w)"
  by (auto simp: callImplMethod_def assertImplMethod_def split_beta
           split: option.splits member.splits)

section \<open>The control operations and the active implementation\<close>

lemma logStart_impl [simp]: "impl (snd (logStart n s)) = impl s"
  by (simp add: logStart_def split: jsval.splits)

lemma logStart_baseImpl [simp]: "baseImpl (snd (logStart n s)) = baseImpl s"
  by (simp add: logStart_def split: jsval.splits)

lemma logEnd_impl [simp]: "impl (snd (logEnd n s)) = impl s"
  by (simp add: logEnd_def split: option.splits)

lemma logEnd_baseImpl [simp]: "baseImpl (snd (logEnd n s)) = baseImpl s"
  by (simp add: logEnd_def split: option.splits)

lemma perform_facade: "fst (snd (perform now h d s w)) = fst (log now (name_of d) (args_of d) s w)"
  by (cases d) (simp_all add: text_op_def json_def arrayBuffer_def write_op_def callImplMethod_facade)

lemma setImpl_facade:
  "fst (snd (setImpl now i s w)) =
     (if impl s \<noteq> baseImpl s then fst (log now ''implSet'' [JSObject i] s w)
      else (fst (log now ''implSet'' [JSObject i] s w))\<lparr>impl := i\<rparr>)"
  by (simp add: setImpl_def split_beta)

lemma setImpl_outcome:
  "fst (setImpl now i s w) = (if impl s \<noteq> baseImpl s then Inl ImplAreadySetError else Inr ())"
  by (simp add: setImpl_def split_beta)

lemma resetImpl_facade:
  "fst (snd (resetImpl now s w)) = (fst (log now ''implReset'' [] s w))\<lparr>impl := baseImpl s\<rparr>"
  by (simp add: resetImpl_def split_beta)

text \<open>While a swap is in effect, only \<^verbatim>\<open>resetImpl\<close> changes the active implementation.\<close>

lemma exec_keeps_swap:
  "c \<noteq> ResetImpl \<Longrightarrow> impl (fst sw) \<noteq> baseImpl (fst sw) \<Longrightarrow>
   impl (fst (exec now h c sw)) = impl (fst sw) \<and> baseImpl (fst (exec now h c sw)) = baseImpl (fst sw)"
  by (cases sw; cases c) (simp_all add: perform_facade setImpl_facade)

lemma run_keeps_swap:
  "ResetImpl \<notin> set cs \<Longrightarrow> impl (fst sw) \<noteq> baseImpl (fst sw) \<Longrightarrow>
   impl (fst (run now h cs sw)) = impl (fst sw) \<and> baseImpl (fst (run now h cs sw)) = baseImpl (fst sw)"
proof (induction cs arbitrary: sw)
  case Nil
  then show ?case by simp
next
  case (Cons c cs)
  from Cons.prems have c: "c \<noteq> ResetImpl" and cs: "ResetImpl \<notin> set cs" by auto
  from exec_keeps_swap [OF c Cons.prems(2), of now h]
  have e: "impl (fst (exec now h c sw)) = impl (fst sw)"
    "baseImpl (fst (exec now h c sw)) = baseImpl (fst sw)" by simp_all
  with Cons.prems(2) have "impl (fst (exec now h c sw)) \<noteq> baseImpl (fst (exec now h c sw))" by simp
  from Cons.IH [OF cs this] e show ?case by simp
qed

section \<open>Data operations and the logs\<close>

lemma perform_keys: "map fst (logs (fst (snd (perform now h d s w)))) = map fst (logs s)"
  by (simp add: perform_facade log_keys)

lemma perform_map_of:
  "\<exists>t. map_of (logs (fst (snd (perform now h d s w)))) k =
         map_option (\<lambda>es. es @ [\<lparr>methodName = name_of d, args = args_of d, timestamp = t\<rparr>])
           (map_of (logs s) k)"
  by (simp add: perform_facade log_map_of)

lemma perform_Function:
  "h (impl s) (name_of d) = Some (Function f) \<Longrightarrow>
   perform now h d s w =
     (let (s1, w1) = log now (name_of d) (args_of d) s w; (r, w2) = f (args_of d) w1
      in (r, s1, w2))"
  by (cases d) (simp_all add: text_op_def json_def arrayBuffer_def write_op_def callImplMethod_Function)

lemma perform_missing:
  "\<nexists>f. h (impl s) (name_of d) = Some (Function f) \<Longrightarrow>
   perform now h d s w = (Inl (NoSuchMethodError (name_of d)), log now (name_of d) (args_of d) s w)"
  by (cases d) (simp_all add: text_op_def json_def arrayBuffer_def write_op_def callImplMethod_missing)

lemma perform_get:
  "map_of (logs s) k = Some es \<Longrightarrow>
   \<exists>t. map_of (logs (fst (snd (perform now h d s w)))) k =
         Some (es @ [\<lparr>methodName = name_of d, args = args_of d, timestamp = t\<rparr>])"
  using perform_map_of [of now h d s w k] by simp

lemma run_data_get:
  "map_of (logs (fst sw)) k = Some es \<Longrightarrow>
   \<exists>es'. map_of (logs (fst (run now h (map Data ds) sw))) k = Some (es @ es') \<and>
         map (\<lambda>e. (methodName e, args e)) es' = map (\<lambda>d. (name_of d, args_of d)) ds"
proof (induction ds arbitrary: sw es)
  case Nil
  then show ?case by simp
next
  case (Cons d ds)
  obtain s w where sw: "sw = (s, w)" by (cases sw)
  from Cons.prems sw perform_get [of s k es now h d w] obtain t where
    t: "map_of (logs (fst (exec now h (Data d) sw))) k =
          Some (es @ [\<lparr>methodName = name_of d, args = args_of d, timestamp = t\<rparr>])"
    by auto
  from Cons.IH [OF t] obtain es' where
    es': "map_of (logs (fst (run now h (map Data ds) (exec now h (Data d) sw)))) k =
            Some ((es @ [\<lparr>methodName = name_of d, args = args_of d, timestamp = t\<rparr>]) @ es')"
      "map (\<lambda>e. (methodName e, args e)) es' = map (\<lambda>d. (name_of d, args_of d)) ds"
    by blast
  show ?case
  proof (intro exI conjI)
    show "map_of (logs (fst (run now h (map Data (d # ds)) sw))) k =
            Some (es @ (\<lparr>methodName = name_of d, args = args_of d, timestamp = t\<rparr> # es'))"
      using es'(1) by simp
    show "map (\<lambda>e. (methodName e, args e))
            (\<lparr>methodName = name_of d, args = args_of d, timestamp = t\<rparr> # es') =
          map (\<lambda>d. (name_of d, args_of d)) (d # ds)"
      using es'(2) by simp
  qed
qed

lemma logStart_fresh:
  "name \<noteq> [] \<Longrightarrow> map_of (logs s) name = None \<Longrightarrow>
   logStart (JSString name) s = (Inr (), s\<lparr>logs := logs s @ [(name, [])]\<rparr>)"
proof -
  assume a: "name \<noteq> []" "map_of (logs s) name = None"
  have "AList.update name v al = al @ [(name, v)]" if "map_of al name = None" for v :: "LogEntry list" and al
    using that by (induction al) (auto split: if_splits)
  with a show ?thesis by (simp add: logStart_def)
qed

lemma logEnd_open:
  "map_of (logs s) name = Some es \<Longrightarrow>
   logEnd name s = (Inr es, s\<lparr>logs := AList.delete name (logs s)\<rparr>)"
  by (simp add: logEnd_def)

lemma logStart_get:
  "name \<noteq> [] \<Longrightarrow> map_of (logs s) name = None \<Longrightarrow>
   map_of (logs (snd (logStart (JSString name) s))) name = Some []"
  by (simp add: logStart_fresh map_add_def)

lemma logEnd_other:
  "k \<noteq> name \<Longrightarrow> map_of (logs (snd (logEnd name s))) k = map_of (logs s) k"
  by (simp add: logEnd_def split: option.splits)

lemma logStart_keeps:
  "map_of (logs s) k = Some es \<Longrightarrow> map_of (logs (snd (logStart name s))) k = Some es"
  by (auto simp: logStart_def update_conv' split: jsval.splits)

section \<open>The claims\<close>

text \<open>
  Claim C1. When the active implementation has a function under the name of a data
  operation (\<^verbatim>\<open>text\<close>, \<^verbatim>\<open>json\<close>, \<^verbatim>\<open>arrayBuffer\<close>, \<^verbatim>\<open>write\<close>), the
  facade's operation calls that function with exactly the arguments it was given
  (the file path; for \<^verbatim>\<open>write\<close> the file path and the data) and hands back its
  outcome, a result or a failure, as it is. Besides that the call only logs.
\<close>

theorem data_operations_forward:
  "(h (impl s) ''text'' = Some (Function f) \<longrightarrow>
      text_op now h p s w =
        (let (s1, w1) = log now ''text'' [p] s w; (r, w2) = f [p] w1 in (r, s1, w2))) \<and>
   (h (impl s) ''json'' = Some (Function f) \<longrightarrow>
      json now h p s w =
        (let (s1, w1) = log now ''json'' [p] s w; (r, w2) = f [p] w1 in (r, s1, w2))) \<and>
   (h (impl s) ''arrayBuffer'' = Some (Function f) \<longrightarrow>
      arrayBuffer now h p s w =
        (let (s1, w1) = log now ''arrayBuffer'' [p] s w; (r, w2) = f [p] w1 in (r, s1, w2))) \<and>
   (h (impl s) ''write'' = Some (Function f) \<longrightarrow>
      write_op now h p d s w =
        (let (s1, w1) = log now ''write'' [p, d] s w; (r, w2) = f [p, d] w1 in (r, s1, w2)))"
  by (simp add: text_op_def json_def arrayBuffer_def write_op_def callImplMethod_Function)

theorem data_operations_forward_witness:
  "store (impl (new_Fsx 1)) ''text'' = Some (Function text_impl) \<and>
   text_op tick store (JSString ''f'') (new_Fsx 1) 0 = (Inr (JSString ''contents''), new_Fsx 1, 0) \<and>
   text_impl [JSString ''f''] 0 = (Inr (JSString ''contents''), 0)"
  using data_operations_forward [of store "new_Fsx 1" text_impl tick "JSString ''f''" 0]
  by (simp add: store_def new_Fsx_def text_impl_def log_def)

text \<open>
  The four data operations that the class declares fail as the documentation of the
  class says: when the active implementation has no function under the operation's
  name (no member of that name, or a member that is no function), the operation fails
  with \<^verbatim>\<open>NoSuchMethodError\<close> for that name, and with nothing else.
\<close>

theorem missing_method_fails:
  "((\<nexists>f. h (impl s) ''text'' = Some (Function f)) \<longrightarrow>
      fst (text_op now h p s w) = Inl (NoSuchMethodError ''text'')) \<and>
   ((\<nexists>f. h (impl s) ''json'' = Some (Function f)) \<longrightarrow>
      fst (json now h p s w) = Inl (NoSuchMethodError ''json'')) \<and>
   ((\<nexists>f. h (impl s) ''arrayBuffer'' = Some (Function f)) \<longrightarrow>
      fst (arrayBuffer now h p s w) = Inl (NoSuchMethodError ''arrayBuffer'')) \<and>
   ((\<nexists>f. h (impl s) ''write'' = Some (Function f)) \<longrightarrow>
      fst (write_op now h p d s w) = Inl (NoSuchMethodError ''write''))"
  by (simp add: text_op_def json_def arrayBuffer_def write_op_def callImplMethod_missing)

theorem missing_method_fails_witness:
  "(\<nexists>f. store (impl (new_Fsx 1)) ''write'' = Some (Function f)) \<and>
   fst (write_op tick store (JSString ''f'') (JSString ''x'') (new_Fsx 1) 0) =
     Inl (NoSuchMethodError ''write'') \<and>
   (\<nexists>f. store (impl (new_Fsx 2)) ''write'' = Some (Function f)) \<and>
   fst (write_op tick store (JSString ''f'') (JSString ''x'') (new_Fsx 2) 0) =
     Inl (NoSuchMethodError ''write'')"
  using missing_method_fails [of store "new_Fsx 1" tick "JSString ''f''" 0 "JSString ''x''"]
    missing_method_fails [of store "new_Fsx 2" tick "JSString ''f''" 0 "JSString ''x''"]
  by (simp add: store_def new_Fsx_def)

text \<open>
  The operations of the interface that the class lacks throw \<^verbatim>\<open>TypeError\<close>,
  whatever the active implementation is.
\<close>

lemma call_operation_absent:
  "op \<in> set HfsImpl_operations \<Longrightarrow> op \<notin> set Fsx_methods \<Longrightarrow>
   call_operation now h op as s w =
     Some (Inl (TypeError (''fsx.'' @ op @ '' is not a function'')), s, w)"
  by (simp add: call_operation_def)

text \<open>
  Claim C2 does not hold of \<^verbatim>\<open>class Fsx\<close> for the operations it lacks. Object 1
  has no member \<^verbatim>\<open>bytes\<close> and no member \<^verbatim>\<open>write\<close>. On a facade built on it,
  \<^verbatim>\<open>bytes("f")\<close> fails with \<^verbatim>\<open>TypeError\<close> and not with
  \<^verbatim>\<open>NoSuchMethodError\<close> for \<^verbatim>\<open>bytes\<close>, where \<^verbatim>\<open>write("f", "x")\<close> fails with
  \<^verbatim>\<open>NoSuchMethodError\<close> for \<^verbatim>\<open>write\<close>.
\<close>

theorem missing_operation_throws_TypeError:
  "(\<nexists>f. store (impl (new_Fsx 1)) ''bytes'' = Some (Function f)) \<and>
   call_operation tick store ''bytes'' [JSString ''f''] (new_Fsx 1) 0 =
     Some (Inl (TypeError ''fsx.bytes is not a function''), new_Fsx 1, 0) \<and>
   (\<nexists>f. store (impl (new_Fsx 1)) ''write'' = Some (Function f)) \<and>
   call_operation tick store ''write'' [JSString ''f'', JSString ''x''] (new_Fsx 1) 0 =
     Some (Inl (NoSuchMethodError ''write''), new_Fsx 1, 0)"
  by (simp add: call_operation_def HfsImpl_operations_def Fsx_methods_def argument_def
      write_op_def callImplMethod_def assertImplMethod_def log_def store_def new_Fsx_def)

text \<open>
  Claim C3 does not hold of \<^verbatim>\<open>class Fsx\<close>: of the fifteen operations of the
  interface it declares \<^verbatim>\<open>text\<close>, \<^verbatim>\<open>json\<close>, \<^verbatim>\<open>arrayBuffer\<close> and
  \<^verbatim>\<open>write\<close>, and these eleven have no method on the facade.
\<close>

theorem Fsx_lacks_operations:
  "filter (\<lambda>op. op \<notin> set Fsx_methods) HfsImpl_operations =
     [''bytes'', ''isFile'', ''isDirectory'', ''createDirectory'', ''delete'', ''deleteAll'',
      ''list'', ''size'', ''copy'', ''copyAll'', ''move'']"
  by (simp add: Fsx_methods_def HfsImpl_operations_def)

text \<open>
  Claim C4, as the code has it. With no swap in effect, \<^verbatim>\<open>setImpl(i)\<close> for an
  implementation \<open>i\<close> other than the base implementation succeeds; after it, and
  after any further calls among which there is no \<^verbatim>\<open>resetImpl\<close>, a
  \<^verbatim>\<open>setImpl(j)\<close> fails with \<^verbatim>\<open>ImplAreadySetError\<close> and the active
  implementation is still \<open>i\<close>.
\<close>

theorem second_setImpl_fails:
  assumes "isBaseImpl s" and "i \<noteq> baseImpl s" and "ResetImpl \<notin> set cs"
  shows "fst (setImpl now i s w) = Inr () \<and>
         (let (s1, w1) = run now h cs (snd (setImpl now i s w))
          in fst (setImpl now j s1 w1) = Inl ImplAreadySetError \<and>
             impl (fst (snd (setImpl now j s1 w1))) = i)"
proof -
  let ?sw = "snd (setImpl now i s w)"
  from assms(1) have ok: "fst (setImpl now i s w) = Inr ()"
    by (simp add: setImpl_outcome isBaseImpl_def)
  from assms(1) have i: "impl (fst ?sw) = i" "baseImpl (fst ?sw) = baseImpl s"
    by (simp_all add: setImpl_facade isBaseImpl_def)
  with assms(2) have "impl (fst ?sw) \<noteq> baseImpl (fst ?sw)" by simp
  from run_keeps_swap [OF assms(3) this, of now h] i
  have r: "impl (fst (run now h cs ?sw)) = i" "baseImpl (fst (run now h cs ?sw)) = baseImpl s"
    by simp_all
  with assms(2) show ?thesis
    using ok by (simp add: split_beta setImpl_outcome setImpl_facade)
qed

theorem second_setImpl_fails_witness:
  "isBaseImpl (new_Fsx 1) \<and> (2::nat) \<noteq> baseImpl (new_Fsx 1) \<and>
   ResetImpl \<notin> set [Data (Text (JSString ''f'')), LogStart (JSString ''a''), SetImpl 3] \<and>
   fst (setImpl tick 2 (new_Fsx 1) 0) = Inr () \<and>
   run tick store [Data (Text (JSString ''f'')), LogStart (JSString ''a''), SetImpl 3]
     (snd (setImpl tick 2 (new_Fsx 1) 0)) =
     (\<lparr>baseImpl = 1, impl = 2,
       logs = [(''a'', [\<lparr>methodName = ''implSet'', args = [JSObject 3], timestamp = 0\<rparr>])]\<rparr>, 1) \<and>
   setImpl tick 4
     \<lparr>baseImpl = 1, impl = 2,
       logs = [(''a'', [\<lparr>methodName = ''implSet'', args = [JSObject 3], timestamp = 0\<rparr>])]\<rparr> 1 =
     (Inl ImplAreadySetError,
      \<lparr>baseImpl = 1, impl = 2,
        logs = [(''a'', [\<lparr>methodName = ''implSet'', args = [JSObject 3], timestamp = 0\<rparr>,
                         \<lparr>methodName = ''implSet'', args = [JSObject 4], timestamp = 1\<rparr>])]\<rparr>, 2)"
  using second_setImpl_fails [of "new_Fsx 1" 2
      "[Data (Text (JSString ''f'')), LogStart (JSString ''a''), SetImpl 3]" tick 0 store 4]
  by (simp add: isBaseImpl_def new_Fsx_def setImpl_def log_def tick_def text_op_def
      callImplMethod_def assertImplMethod_def store_def logStart_def)

text \<open>
  Claim C4 as it is stated fails when the first call installs the base implementation
  itself: on a facade built on object 1, \<^verbatim>\<open>setImpl\<close> of object 1 succeeds and
  leaves the facade as it was, and the second \<^verbatim>\<open>setImpl\<close>, of object 2, succeeds
  too and makes object 2 the active implementation.
\<close>

theorem second_setImpl_counterexample:
  "setImpl tick 1 (new_Fsx 1) 0 = (Inr (), new_Fsx 1, 0) \<and>
   setImpl tick 2 (new_Fsx 1) 0 = (Inr (), \<lparr>baseImpl = 1, impl = 2, logs = []\<rparr>, 0)"
  by (simp add: setImpl_def log_def new_Fsx_def)

text \<open>
  Claim C5, as the code has it. \<^verbatim>\<open>isBaseImpl()\<close> is true right after construction
  and right after any \<^verbatim>\<open>resetImpl()\<close> (which never fails); right after a
  \<^verbatim>\<open>setImpl(i)\<close> that succeeded it is true exactly when \<open>i\<close> is the base
  implementation itself, so it is false for every other \<open>i\<close>.
\<close>

theorem isBaseImpl_after:
  "isBaseImpl (new_Fsx b) \<and>
   fst (resetImpl now s w) = Inr () \<and> isBaseImpl (fst (snd (resetImpl now s w))) \<and>
   (fst (setImpl now i s w) = Inr () \<longrightarrow>
      isBaseImpl (fst (snd (setImpl now i s w))) = (i = baseImpl s))"
  by (simp add: isBaseImpl_def new_Fsx_def resetImpl_def split_beta setImpl_outcome setImpl_facade)

theorem isBaseImpl_after_witness:
  "isBaseImpl (new_Fsx 1) \<and>
   fst (setImpl tick 2 (new_Fsx 1) 0) = Inr () \<and>
   \<not> isBaseImpl (fst (snd (setImpl tick 2 (new_Fsx 1) 0))) \<and>
   isBaseImpl (fst (snd (resetImpl tick (fst (snd (setImpl tick 2 (new_Fsx 1) 0))) 0)))"
  using isBaseImpl_after [of 1 tick "fst (snd (setImpl tick 2 (new_Fsx 1) 0))" 0 2]
    isBaseImpl_after [of 1 tick "new_Fsx 1" 0 2]
  by (simp add: new_Fsx_def setImpl_def log_def)

text \<open>
  Claim C5 as it is stated fails for the base implementation as the argument: on a
  facade built on object 1, \<^verbatim>\<open>setImpl\<close> of object 1 succeeds and
  \<^verbatim>\<open>isBaseImpl()\<close> is true after it.
\<close>

theorem isBaseImpl_after_counterexample:
  "fst (setImpl tick 1 (new_Fsx 1) 0) = Inr () \<and>
   isBaseImpl (fst (snd (setImpl tick 1 (new_Fsx 1) 0)))"
  by (simp add: setImpl_def log_def new_Fsx_def isBaseImpl_def)

text \<open>
  Claim C6. A call of a data operation leaves the same logs open and has appended, to
  every open log, a record with the operation's name and the arguments of the call.
  This happens before the dispatch check and the backend: when the active
  implementation has no such function the call fails with \<^verbatim>\<open>NoSuchMethodError\<close>
  and the facade is the one logging left, and otherwise the backend runs in the world
  logging left, and whatever its outcome the facade is the one logging left.
\<close>

theorem call_recorded:
  "map fst (logs (fst (snd (perform now h d s w)))) = map fst (logs s) \<and>
   (\<forall>k. \<exists>t. map_of (logs (fst (snd (perform now h d s w)))) k =
            map_option (\<lambda>es. es @ [\<lparr>methodName = name_of d, args = args_of d, timestamp = t\<rparr>])
              (map_of (logs s) k)) \<and>
   ((\<nexists>f. h (impl s) (name_of d) = Some (Function f)) \<longrightarrow>
      perform now h d s w =
        (Inl (NoSuchMethodError (name_of d)), log now (name_of d) (args_of d) s w)) \<and>
   (\<forall>f. h (impl s) (name_of d) = Some (Function f) \<longrightarrow>
      perform now h d s w =
        (let (s1, w1) = log now (name_of d) (args_of d) s w; (r, w2) = f (args_of d) w1
         in (r, s1, w2)))"
  using perform_map_of [of now h d s w]
  by (simp add: perform_keys perform_missing perform_Function)


theorem call_recorded_witness:
  "(\<nexists>f. store (impl \<lparr>baseImpl = 1, impl = 2, logs = [(''a'', []), (''b'', [])]\<rparr>)
           (name_of (Write (JSString ''f'') (JSString ''x''))) = Some (Function f)) \<and>
   perform tick store (Write (JSString ''f'') (JSString ''x''))
     \<lparr>baseImpl = 1, impl = 2, logs = [(''a'', []), (''b'', [])]\<rparr> 0 =
     (Inl (NoSuchMethodError ''write''),
      \<lparr>baseImpl = 1, impl = 2,
        logs = [(''a'', [\<lparr>methodName = ''write'', args = [JSString ''f'', JSString ''x''],
                          timestamp = 0\<rparr>]),
                (''b'', [\<lparr>methodName = ''write'', args = [JSString ''f'', JSString ''x''],
                          timestamp = 1\<rparr>])]\<rparr>, 2) \<and>
   store (impl \<lparr>baseImpl = 1, impl = 2, logs = [(''a'', []), (''b'', [])]\<rparr>)
     (name_of (Json (JSString ''f''))) = Some (Function json_impl) \<and>
   perform tick store (Json (JSString ''f''))
     \<lparr>baseImpl = 1, impl = 2, logs = [(''a'', []), (''b'', [])]\<rparr> 0 =
     (Inl (Error ''This operation is not supported''),
      \<lparr>baseImpl = 1, impl = 2,
        logs = [(''a'', [\<lparr>methodName = ''json'', args = [JSString ''f''], timestamp = 0\<rparr>]),
                (''b'', [\<lparr>methodName = ''json'', args = [JSString ''f''], timestamp = 1\<rparr>])]\<rparr>, 2)"
  using call_recorded [of tick store "Write (JSString ''f'') (JSString ''x'')"
      "\<lparr>baseImpl = 1, impl = 2, logs = [(''a'', []), (''b'', [])]\<rparr>" 0]
    call_recorded [of tick store "Json (JSString ''f'')"
      "\<lparr>baseImpl = 1, impl = 2, logs = [(''a'', []), (''b'', [])]\<rparr>" 0]
  by (simp add: store_def log_def tick_def json_impl_def)

text \<open>
  Claim C7, as the code has it. A \<^verbatim>\<open>logStart\<close> that fails leaves the facade
  (the registry with the contents of every log, the active implementation) exactly as
  it was. A \<^verbatim>\<open>setImpl(i)\<close> that fails with \<^verbatim>\<open>ImplAreadySetError\<close> leaves the
  active and the base implementation and the names of the open logs as they were, and
  every open log has gained the record of the failed call (\<^verbatim>\<open>implSet\<close> with
  argument \<open>i\<close>); so the facade is exactly as before when no log is open.
\<close>

theorem failed_call_state:
  "(fst (logStart name s) \<noteq> Inr () \<longrightarrow> snd (logStart name s) = s) \<and>
   (fst (setImpl now i s w) = Inl ImplAreadySetError \<longrightarrow>
      impl (fst (snd (setImpl now i s w))) = impl s \<and>
      baseImpl (fst (snd (setImpl now i s w))) = baseImpl s \<and>
      map fst (logs (fst (snd (setImpl now i s w)))) = map fst (logs s) \<and>
      (\<forall>k. \<exists>t. map_of (logs (fst (snd (setImpl now i s w)))) k =
               map_option (\<lambda>es. es @ [\<lparr>methodName = ''implSet'', args = [JSObject i], timestamp = t\<rparr>])
                 (map_of (logs s) k)) \<and>
      (logs s = [] \<longrightarrow> fst (snd (setImpl now i s w)) = s))"
proof -
  have "fst (logStart name s) \<noteq> Inr () \<longrightarrow> snd (logStart name s) = s"
    by (simp add: logStart_def split: jsval.splits)
  moreover have "fst (setImpl now i s w) = Inl ImplAreadySetError \<longrightarrow>
      fst (snd (setImpl now i s w)) = fst (log now ''implSet'' [JSObject i] s w)"
    by (simp add: setImpl_outcome setImpl_facade)
  ultimately show ?thesis
    using log_map_of [of now "''implSet''" "[JSObject i]" s w]
    by (simp add: log_keys log_no_logs)
qed

theorem failed_call_state_witness:
  "fst (logStart (JSString ''a'') \<lparr>baseImpl = 1, impl = 2, logs = [(''a'', [])]\<rparr>) =
     Inl (Error (''Log '' @ [CHR 0x22] @ ''a'' @ [CHR 0x22] @ '' already exists.'')) \<and>
   snd (logStart (JSString ''a'') \<lparr>baseImpl = 1, impl = 2, logs = [(''a'', [])]\<rparr>) =
     \<lparr>baseImpl = 1, impl = 2, logs = [(''a'', [])]\<rparr> \<and>
   fst (logStart (JSNumber 5) \<lparr>baseImpl = 1, impl = 2, logs = []\<rparr>) =
     Inl (TypeError ''Log name must be a non-empty string.'') \<and>
   snd (logStart (JSNumber 5) \<lparr>baseImpl = 1, impl = 2, logs = []\<rparr>) =
     \<lparr>baseImpl = 1, impl = 2, logs = []\<rparr> \<and>
   fst (setImpl tick 3 \<lparr>baseImpl = 1, impl = 2, logs = []\<rparr> 0) = Inl ImplAreadySetError \<and>
   fst (snd (setImpl tick 3 \<lparr>baseImpl = 1, impl = 2, logs = []\<rparr> 0)) =
     \<lparr>baseImpl = 1, impl = 2, logs = []\<rparr>"
  using failed_call_state [of "JSString ''a''" "\<lparr>baseImpl = 1, impl = 2, logs = [(''a'', [])]\<rparr>"
      tick 3 0]
    failed_call_state [of "JSNumber 5" "\<lparr>baseImpl = 1, impl = 2, logs = []\<rparr>" tick 3 0]
  by (simp add: logStart_def setImpl_def log_def)

text \<open>
  Claim C7 as it is stated fails for \<^verbatim>\<open>setImpl\<close> with a log open: after
  \<^verbatim>\<open>logStart("a")\<close> and \<^verbatim>\<open>setImpl\<close> of object 2 on a facade built on object 1,
  \<^verbatim>\<open>setImpl\<close> of object 3 fails with \<^verbatim>\<open>ImplAreadySetError\<close>, and log
  \<^verbatim>\<open>a\<close> holds one record more than before the call.
\<close>

theorem failed_setImpl_counterexample:
  "run tick store [LogStart (JSString ''a''), SetImpl 2] (new_Fsx 1, 0) =
     (\<lparr>baseImpl = 1, impl = 2,
       logs = [(''a'', [\<lparr>methodName = ''implSet'', args = [JSObject 2], timestamp = 0\<rparr>])]\<rparr>, 1) \<and>
   setImpl tick 3
     \<lparr>baseImpl = 1, impl = 2,
       logs = [(''a'', [\<lparr>methodName = ''implSet'', args = [JSObject 2], timestamp = 0\<rparr>])]\<rparr> 1 =
     (Inl ImplAreadySetError,
      \<lparr>baseImpl = 1, impl = 2,
        logs = [(''a'', [\<lparr>methodName = ''implSet'', args = [JSObject 2], timestamp = 0\<rparr>,
                         \<lparr>methodName = ''implSet'', args = [JSObject 3], timestamp = 1\<rparr>])]\<rparr>, 2)"
  by (simp add: new_Fsx_def logStart_def setImpl_def log_def tick_def)

text \<open>
  Claim C8. After a \<^verbatim>\<open>logStart(name)\<close> that opens a new log and two data
  operation calls, \<^verbatim>\<open>logEnd(name)\<close> returns exactly two records, the first with
  the name and arguments of the first call and the second with those of the second;
  after any sequence of data operation calls it returns their names and arguments in
  the order of the calls. In general \<^verbatim>\<open>logEnd(name)\<close> on an open log returns the
  records it holds and leaves the registry without that name.
\<close>

theorem logEnd_returns_calls:
  assumes "name \<noteq> []" and "map_of (logs s) name = None"
  shows "fst (logStart (JSString name) s) = Inr () \<and>
         (\<exists>t1 t2. fst (logEnd name
              (fst (run now h [Data d1, Data d2] (snd (logStart (JSString name) s), w)))) =
            Inr [\<lparr>methodName = name_of d1, args = args_of d1, timestamp = t1\<rparr>,
                 \<lparr>methodName = name_of d2, args = args_of d2, timestamp = t2\<rparr>]) \<and>
         (\<exists>es. fst (logEnd name
              (fst (run now h (map Data ds) (snd (logStart (JSString name) s), w)))) = Inr es \<and>
            map (\<lambda>e. (methodName e, args e)) es = map (\<lambda>d. (name_of d, args_of d)) ds) \<and>
         (\<forall>s' es. map_of (logs s') name = Some es \<longrightarrow>
            logEnd name s' = (Inr es, s'\<lparr>logs := AList.delete name (logs s')\<rparr>) \<and>
            map_of (logs (snd (logEnd name s'))) name = None)"
proof -
  let ?s1 = "snd (logStart (JSString name) s)"
  have ok: "fst (logStart (JSString name) s) = Inr ()"
    using assms by (simp add: logStart_fresh)
  have start: "map_of (logs (fst (?s1, w))) name = Some []"
    using assms by (simp add: logStart_get)
  have gen: "\<exists>es. fst (logEnd name (fst (run now h (map Data ds) (?s1, w)))) = Inr es \<and>
            map (\<lambda>e. (methodName e, args e)) es = map (\<lambda>d. (name_of d, args_of d)) ds"
  proof -
    from run_data_get [OF start, of now h ds] obtain es where
      "map_of (logs (fst (run now h (map Data ds) (?s1, w)))) name = Some es"
      "map (\<lambda>e. (methodName e, args e)) es = map (\<lambda>d. (name_of d, args_of d)) ds"
      by auto
    then show ?thesis by (simp add: logEnd_open)
  qed
  have two: "\<exists>t1 t2. fst (logEnd name (fst (run now h [Data d1, Data d2] (?s1, w)))) =
            Inr [\<lparr>methodName = name_of d1, args = args_of d1, timestamp = t1\<rparr>,
                 \<lparr>methodName = name_of d2, args = args_of d2, timestamp = t2\<rparr>]"
  proof -
    from start perform_get [of ?s1 name "[]" now h d1 w] obtain t1 where
      t1: "map_of (logs (fst (snd (perform now h d1 ?s1 w)))) name =
             Some [\<lparr>methodName = name_of d1, args = args_of d1, timestamp = t1\<rparr>]"
      by auto
    obtain s2 w2 where e: "snd (perform now h d1 ?s1 w) = (s2, w2)"
      by (cases "snd (perform now h d1 ?s1 w)")
    with t1 have "map_of (logs s2) name =
             Some [\<lparr>methodName = name_of d1, args = args_of d1, timestamp = t1\<rparr>]" by simp
    from perform_get [OF this, of now h d2 w2] obtain t2 where
      "map_of (logs (fst (snd (perform now h d2 s2 w2)))) name =
         Some [\<lparr>methodName = name_of d1, args = args_of d1, timestamp = t1\<rparr>,
               \<lparr>methodName = name_of d2, args = args_of d2, timestamp = t2\<rparr>]"
      by auto
    with e show ?thesis by (auto simp: logEnd_open)
  qed
  have fin: "\<forall>s' es. map_of (logs s') name = Some es \<longrightarrow>
            logEnd name s' = (Inr es, s'\<lparr>logs := AList.delete name (logs s')\<rparr>) \<and>
            map_of (logs (snd (logEnd name s'))) name = None"
    by (simp add: logEnd_open delete_conv')
  from ok two gen fin show ?thesis by blast
qed


theorem logEnd_returns_calls_witness:
  "''a'' \<noteq> [] \<and> map_of (logs (new_Fsx 1)) ''a'' = None \<and>
   logStart (JSString ''a'') (new_Fsx 1) = (Inr (), \<lparr>baseImpl = 1, impl = 1, logs = [(''a'', [])]\<rparr>) \<and>
   logEnd ''a''
     (fst (run tick store [Data (Text (JSString ''f'')), Data (Write (JSString ''g'') (JSNumber 7))]
        (\<lparr>baseImpl = 1, impl = 1, logs = [(''a'', [])]\<rparr>, 0))) =
     (Inr [\<lparr>methodName = ''text'', args = [JSString ''f''], timestamp = 0\<rparr>,
           \<lparr>methodName = ''write'', args = [JSString ''g'', JSNumber 7], timestamp = 1\<rparr>],
      \<lparr>baseImpl = 1, impl = 1, logs = []\<rparr>)"
  using logEnd_returns_calls [of "''a''" "new_Fsx 1" tick store "Text (JSString ''f'')"
      "Write (JSString ''g'') (JSNumber 7)" 0 "[]"]
  by (simp add: new_Fsx_def logStart_def logEnd_def text_op_def write_op_def callImplMethod_def
      assertImplMethod_def store_def log_def tick_def text_impl_def AList.delete_eq)

text \<open>
  Claim C9. With two logs \<open>a\<close> and \<open>b\<close> open, a call of a data operation is
  recorded in both. Ending \<open>a\<close> returns what \<open>a\<close> holds, closes \<open>a\<close> and leaves
  the records of \<open>b\<close> as they are, and a call made after that is still appended to
  \<open>b\<close>.
\<close>

theorem concurrent_logs:
  assumes "a \<noteq> b" and "map_of (logs s) a = Some ea" and "map_of (logs s) b = Some eb"
  shows "(\<exists>ta tb.
            map_of (logs (fst (snd (perform now h d s w)))) a =
              Some (ea @ [\<lparr>methodName = name_of d, args = args_of d, timestamp = ta\<rparr>]) \<and>
            map_of (logs (fst (snd (perform now h d s w)))) b =
              Some (eb @ [\<lparr>methodName = name_of d, args = args_of d, timestamp = tb\<rparr>])) \<and>
         fst (logEnd a s) = Inr ea \<and>
         map_of (logs (snd (logEnd a s))) a = None \<and>
         map_of (logs (snd (logEnd a s))) b = Some eb \<and>
         (\<exists>t. map_of (logs (fst (snd (perform now h d (snd (logEnd a s)) w)))) b =
            Some (eb @ [\<lparr>methodName = name_of d, args = args_of d, timestamp = t\<rparr>]))"
proof -
  from perform_get [OF assms(2), of now h d w] perform_get [OF assms(3), of now h d w]
  have both: "\<exists>ta tb.
            map_of (logs (fst (snd (perform now h d s w)))) a =
              Some (ea @ [\<lparr>methodName = name_of d, args = args_of d, timestamp = ta\<rparr>]) \<and>
            map_of (logs (fst (snd (perform now h d s w)))) b =
              Some (eb @ [\<lparr>methodName = name_of d, args = args_of d, timestamp = tb\<rparr>])"
    by blast
  have ended: "fst (logEnd a s) = Inr ea" "map_of (logs (snd (logEnd a s))) a = None"
    using assms(2) by (simp_all add: logEnd_open delete_conv')
  have other: "map_of (logs (snd (logEnd a s))) b = Some eb"
    using assms(1,3) by (simp add: logEnd_other)
  from perform_get [OF other, of now h d w] both ended other show ?thesis by blast
qed


theorem concurrent_logs_witness:
  "''a'' \<noteq> ''b'' \<and>
   map_of (logs \<lparr>baseImpl = 1, impl = 1, logs = [(''a'', []), (''b'', [])]\<rparr>) ''a'' = Some [] \<and>
   map_of (logs \<lparr>baseImpl = 1, impl = 1, logs = [(''a'', []), (''b'', [])]\<rparr>) ''b'' = Some [] \<and>
   logs (fst (snd (perform tick store (Text (JSString ''f''))
     \<lparr>baseImpl = 1, impl = 1, logs = [(''a'', []), (''b'', [])]\<rparr> 0))) =
     [(''a'', [\<lparr>methodName = ''text'', args = [JSString ''f''], timestamp = 0\<rparr>]),
      (''b'', [\<lparr>methodName = ''text'', args = [JSString ''f''], timestamp = 1\<rparr>])] \<and>
   logEnd ''a'' \<lparr>baseImpl = 1, impl = 1, logs = [(''a'', []), (''b'', [])]\<rparr> =
     (Inr [], \<lparr>baseImpl = 1, impl = 1, logs = [(''b'', [])]\<rparr>) \<and>
   logs (fst (snd (perform tick store (Text (JSString ''f''))
     \<lparr>baseImpl = 1, impl = 1, logs = [(''b'', [])]\<rparr> 0))) =
     [(''b'', [\<lparr>methodName = ''text'', args = [JSString ''f''], timestamp = 0\<rparr>])]"
  using concurrent_logs [of "''a''" "''b''"
      "\<lparr>baseImpl = 1, impl = 1, logs = [(''a'', []), (''b'', [])]\<rparr>" "[]" "[]"
      tick store "Text (JSString ''f'')" 0]
  by (simp add: logEnd_def text_op_def callImplMethod_def assertImplMethod_def store_def
      log_def tick_def text_impl_def AList.delete_eq)

text \<open>
  Claim C10. \<^verbatim>\<open>setImpl(i)\<close> is recorded in every open log under the name
  \<^verbatim>\<open>implSet\<close> with \<open>i\<close> as its one argument, whether it succeeds or fails, and
  \<^verbatim>\<open>resetImpl()\<close> under the name \<^verbatim>\<open>implReset\<close> with no arguments; neither
  name is the name of the public method. \<^verbatim>\<open>logStart\<close> and \<^verbatim>\<open>logEnd\<close> record
  nothing: \<^verbatim>\<open>logStart\<close> leaves every open log with the records it had,
  \<^verbatim>\<open>logEnd\<close> returns the records of its log as they were and leaves every other
  log as it was.
\<close>

theorem control_operations_recorded:
  "(\<forall>k. \<exists>t. map_of (logs (fst (snd (setImpl now i s w)))) k =
            map_option (\<lambda>es. es @ [\<lparr>methodName = ''implSet'', args = [JSObject i], timestamp = t\<rparr>])
              (map_of (logs s) k)) \<and>
   (\<forall>k. \<exists>t. map_of (logs (fst (snd (resetImpl now s w)))) k =
            map_option (\<lambda>es. es @ [\<lparr>methodName = ''implReset'', args = [], timestamp = t\<rparr>])
              (map_of (logs s) k)) \<and>
   ''implSet'' \<noteq> ''setImpl'' \<and> ''implReset'' \<noteq> ''resetImpl'' \<and>
   (\<forall>k es. map_of (logs s) k = Some es \<longrightarrow> map_of (logs (snd (logStart name s))) k = Some es) \<and>
   (\<forall>es. map_of (logs s) n = Some es \<longrightarrow> fst (logEnd n s) = Inr es) \<and>
   (\<forall>k. k \<noteq> n \<longrightarrow> map_of (logs (snd (logEnd n s))) k = map_of (logs s) k)"
proof -
  have set: "\<exists>t. map_of (logs (fst (snd (setImpl now i s w)))) k =
            map_option (\<lambda>es. es @ [\<lparr>methodName = ''implSet'', args = [JSObject i], timestamp = t\<rparr>])
              (map_of (logs s) k)" for k
    using log_map_of [of now "''implSet''" "[JSObject i]" s w k] by (simp add: setImpl_facade)
  have reset: "\<exists>t. map_of (logs (fst (snd (resetImpl now s w)))) k =
            map_option (\<lambda>es. es @ [\<lparr>methodName = ''implReset'', args = [], timestamp = t\<rparr>])
              (map_of (logs s) k)" for k
    using log_map_of [of now "''implReset''" "[]" s w k] by (simp add: resetImpl_facade)
  from set reset show ?thesis
    by (simp add: logStart_keeps logEnd_open logEnd_other)
qed


theorem control_operations_recorded_witness:
  "setImpl tick 2 \<lparr>baseImpl = 1, impl = 1, logs = [(''a'', [])]\<rparr> 0 =
     (Inr (),
      \<lparr>baseImpl = 1, impl = 2,
        logs = [(''a'', [\<lparr>methodName = ''implSet'', args = [JSObject 2], timestamp = 0\<rparr>])]\<rparr>, 1) \<and>
   resetImpl tick \<lparr>baseImpl = 1, impl = 1, logs = [(''a'', [])]\<rparr> 0 =
     (Inr (),
      \<lparr>baseImpl = 1, impl = 1,
        logs = [(''a'', [\<lparr>methodName = ''implReset'', args = [], timestamp = 0\<rparr>])]\<rparr>, 1) \<and>
   map_of (logs \<lparr>baseImpl = 1, impl = 1, logs = [(''a'', [])]\<rparr>) ''a'' = Some [] \<and>
   logStart (JSString ''b'') \<lparr>baseImpl = 1, impl = 1, logs = [(''a'', [])]\<rparr> =
     (Inr (), \<lparr>baseImpl = 1, impl = 1, logs = [(''a'', []), (''b'', [])]\<rparr>) \<and>
   ''b'' \<noteq> ''a'' \<and>
   logEnd ''a'' \<lparr>baseImpl = 1, impl = 1, logs = [(''a'', []), (''b'', [])]\<rparr> =
     (Inr [], \<lparr>baseImpl = 1, impl = 1, logs = [(''b'', [])]\<rparr>)"
  using control_operations_recorded [of tick 2 "\<lparr>baseImpl = 1, impl = 1, logs = [(''a'', [])]\<rparr>" 0
      "JSString ''b''" "''a''"]
    control_operations_recorded [of tick 2
      "\<lparr>baseImpl = 1, impl = 1, logs = [(''a'', []), (''b'', [])]\<rparr>" 0 "JSString ''b''" "''a''"]
  by (simp add: setImpl_def resetImpl_def logStart_def logEnd_def log_def tick_def AList.delete_eq)

end
